theory Spec2Isabelle
  imports Main
begin

section \<open>The Sphinx configuration module \<^verbatim>\<open>docs/conf.py\<close> of ReqShield\<close>

text \<open>
  The module is a flat sequence of assignments, run once when Sphinx imports it.
  Two of them compute: \<^verbatim>\<open>copyright\<close>, from today's date, and
  \<^verbatim>\<open>version\<close>, from \<^verbatim>\<open>get_version()\<close>, which reads two
  environment variables and may start one subprocess. Everything the module reads from
  outside is gathered in a record \<open>world\<close>; every exception the calls can raise is a
  value.
\<close>

subsection \<open>Python strings\<close>

text \<open>
  A \<^verbatim>\<open>str\<close> is a \<open>string\<close>; a \<open>char\<close> stands for the code point of
  the same number (code points below 256).
  \<^verbatim>\<open>bool(s)\<close> of a string is \<^verbatim>\<open>len(s) > 0\<close>, and
  \<^verbatim>\<open>a or b\<close> is \<^verbatim>\<open>a\<close> when \<^verbatim>\<open>a\<close> is truthy and
  \<^verbatim>\<open>b\<close> otherwise.
\<close>

definition truthy :: "string \<Rightarrow> bool" where
  "truthy s = (s \<noteq> [])"

definition py_or :: "string \<Rightarrow> string \<Rightarrow> string" where
  "py_or a b = (if truthy a then a else b)"

text \<open>
  \<^verbatim>\<open>str.isspace\<close> on one code point below 256: the characters
  \<^verbatim>\<open>\t \n \x0b \x0c \r \x1c \x1d \x1e \x1f\<close>, the space,
  \<^verbatim>\<open>\x85\<close> and \<^verbatim>\<open>\xa0\<close>.
\<close>

definition whitespace :: "char list" where
  "whitespace =
     [CHR 0x09, CHR 0x0A, CHR 0x0B, CHR 0x0C, CHR 0x0D,
      CHR 0x1C, CHR 0x1D, CHR 0x1E, CHR 0x1F, CHR 0x20, CHR 0x85, CHR 0xA0]"

definition isspace :: "char \<Rightarrow> bool" where
  "isspace c = (c \<in> set whitespace)"

text \<open>\<^verbatim>\<open>s.strip()\<close> with no argument removes whitespace at both ends.\<close>

definition lstrip :: "string \<Rightarrow> string" where
  "lstrip s = dropWhile isspace s"

definition rstrip :: "string \<Rightarrow> string" where
  "rstrip s = rev (dropWhile isspace (rev s))"

definition strip :: "string \<Rightarrow> string" where
  "strip s = lstrip (rstrip s)"

subsection \<open>What the module reads from outside\<close>

text \<open>
  The exceptions \<^verbatim>\<open>Popen(...)\<close> and \<^verbatim>\<open>pipe.stdout.read()\<close> raise;
  each is a subclass of \<^verbatim>\<open>Exception\<close>, so \<^verbatim>\<open>except Exception\<close>
  handles every value of this type.
\<close>

datatype py_exception = OSError | ValueError | UnicodeDecodeError | MemoryError

text \<open>
  A \<^verbatim>\<open>Popen\<close> object as far as the module can observe it: what
  \<^verbatim>\<open>pipe.stdout.read()\<close> gives (the child's whole standard output as text, or
  an exception), and the exit status the child ends with. The module never reads
  \<^verbatim>\<open>returncode\<close>.
\<close>

record pipe =
  stdout_read :: "py_exception + string"
  returncode :: int

record date =
  year :: nat
  month :: nat
  day :: nat

text \<open>
  \<open>environ\<close> is \<^verbatim>\<open>os.environ\<close>, and \<open>environ w k\<close> is
  \<^verbatim>\<open>os.environ.get(k)\<close>; \<open>Popen w cmd\<close> is what
  \<^verbatim>\<open>Popen(cmd, stdout=PIPE, shell=True, universal_newlines=True)\<close> does;
  \<open>today\<close> is \<^verbatim>\<open>datetime.date.today()\<close>.
\<close>

record world =
  environ :: "string \<rightharpoonup> string"
  Popen :: "string \<Rightarrow> py_exception + pipe"
  today :: date

subsection \<open>\<^verbatim>\<open>get_version\<close>\<close>

definition git_command :: string where
  "git_command = ''git rev-parse --abbrev-ref HEAD''"

text \<open>
  The first two statements of the \<^verbatim>\<open>try\<close> block: start the subprocess, read
  its output and strip it. An exception of either call leaves the block.
\<close>

definition git_output :: "world \<Rightarrow> py_exception + string" where
  "git_output w =
     (case Popen w git_command of
        Inl e \<Rightarrow> Inl e
      | Inr p \<Rightarrow>
          (case stdout_read p of
             Inl e \<Rightarrow> Inl e
           | Inr out \<Rightarrow> Inr (strip (py_or out ''''))))"

text \<open>
  \<^verbatim>\<open>get_version()\<close> returns the version string; the second component lists the
  command lines it passed to \<^verbatim>\<open>Popen\<close>, in order.
\<close>

definition get_version :: "world \<Rightarrow> string \<times> string list" where
  "get_version w =
     (let hosted =
        (if environ w ''READTHEDOCS'' = Some ''True''
         then (case environ w ''READTHEDOCS_VERSION'' of
                 None \<Rightarrow> None
               | Some v \<Rightarrow> if truthy v then Some v else None)
         else None)
      in case hosted of
           Some v \<Rightarrow> (v, [])
         | None \<Rightarrow>
             (case git_output w of
                Inr v \<Rightarrow> (py_or v ''latest'', [git_command])
              | Inl e \<Rightarrow> (''latest'', [git_command])))"

subsection \<open>The module-level assignments\<close>

text \<open>
  \<^verbatim>\<open>strftime("%Y")\<close> writes the year in decimal, most significant digit
  first; \<open>digit_char d\<close> is the character \<^verbatim>\<open>'0' + d\<close>.
\<close>

definition digit_char :: "nat \<Rightarrow> char" where
  "digit_char d = char_of (48 + d)"

fun decimal :: "nat \<Rightarrow> string" where
  "decimal n =
     (if n < 10 then [digit_char n] else decimal (n div 10) @ [digit_char (n mod 10)])"

declare decimal.simps [simp del]

definition strftime_Y :: "date \<Rightarrow> string" where
  "strftime_Y d = decimal (year d)"

text \<open>The values of the dictionary \<^verbatim>\<open>html_context\<close>.\<close>

datatype py_value = Str string | Bool bool

text \<open>
  The module's names that are computed, or that hold a computed value, and the constants
  assigned next to them. A dictionary literal is the list of its items, in order; looking
  a key up is \<open>map_of\<close>.
\<close>

record conf =
  project :: string
  author :: string
  year_now :: string
  copyright :: string
  version :: string
  release :: string
  language :: string
  root_doc :: string
  html_context :: "(string \<times> py_value) list"
  rst_prolog :: string

text \<open>
  Importing the module: the assignments in the order of the source. The second component
  lists the command lines passed to \<^verbatim>\<open>Popen\<close> meanwhile.
\<close>

definition module_init :: "world \<Rightarrow> conf \<times> string list" where
  "module_init w =
     (let year_now = strftime_Y (today w);
          copyright = ''2024-'' @ year_now;
          (version, calls) = get_version w;
          release = version
      in (\<lparr>project = ''ReqShield'',
           author = ''abmmhasan (infocyph)'',
           year_now = year_now,
           copyright = copyright,
           version = version,
           release = release,
           language = ''en'',
           root_doc = ''index'',
           html_context =
             [(''display_github'', Bool False),
              (''github_user'', Str ''infocyph''),
              (''github_repo'', Str ''ReqShield''),
              (''github_version'', Str version),
              (''conf_py_path'', Str ''/docs/'')],
           rst_prolog =
             [CHR 0x0A] @ ''.. |current_year| replace:: '' @ year_now @ [CHR 0x0A]\<rparr>,
          calls))"

subsection \<open>Concrete builds\<close>

text \<open>
  \<open>world_of env outcome\<close> is a build on 4 November 2026 whose environment holds the
  variables of \<open>env\<close> and where starting \<open>git_command\<close> has the given outcome.
\<close>

definition world_of :: "(string \<times> string) list \<Rightarrow> py_exception + pipe \<Rightarrow> world" where
  "world_of env outcome =
     \<lparr>environ = map_of env,
      Popen = (\<lambda>cmd. if cmd = git_command then outcome else Inl OSError),
      today = \<lparr>year = 2026, month = 11, day = 4\<rparr>\<rparr>"

text \<open>A hosted build of the version \<^verbatim>\<open>stable\<close>, in a checkout of \<^verbatim>\<open>main\<close>.\<close>

definition hosted_stable :: world where
  "hosted_stable =
     world_of [(''READTHEDOCS'', ''True''), (''READTHEDOCS_VERSION'', ''stable'')]
       (Inr \<lparr>stdout_read = Inr (''main'' @ [CHR 0x0A]), returncode = 0\<rparr>)"

text \<open>A local build in a checkout of the branch \<^verbatim>\<open>main\<close>.\<close>

definition checkout_main :: world where
  "checkout_main =
     world_of [] (Inr \<lparr>stdout_read = Inr (''main'' @ [CHR 0x0A]), returncode = 0\<rparr>)"

text \<open>
  A local build in a checkout of \<^verbatim>\<open>main\<close> whose query prints the name with
  a space and a tab before it and a carriage return and a line feed after it.
\<close>

definition checkout_padded :: world where
  "checkout_padded =
     world_of []
       (Inr \<lparr>stdout_read = Inr ([CHR 0x20, CHR 0x09] @ ''main'' @ [CHR 0x0D, CHR 0x0A]),
             returncode = 0\<rparr>)"

text \<open>A hosted build whose version variable is not set.\<close>

definition hosted_no_version :: world where
  "hosted_no_version =
     world_of [(''READTHEDOCS'', ''True'')]
       (Inr \<lparr>stdout_read = Inr (''main'' @ [CHR 0x0A]), returncode = 0\<rparr>)"

text \<open>A hosted build whose version variable is the empty string.\<close>

definition hosted_empty_version :: world where
  "hosted_empty_version =
     world_of [(''READTHEDOCS'', ''True''), (''READTHEDOCS_VERSION'', '''')]
       (Inr \<lparr>stdout_read = Inr (''main'' @ [CHR 0x0A]), returncode = 0\<rparr>)"

text \<open>A local build in a repository with no commit yet: \<^verbatim>\<open>git rev-parse\<close> prints
  \<^verbatim>\<open>HEAD\<close> on its standard output, complains on its standard error and exits with
  status 128.\<close>

definition unborn_branch :: world where
  "unborn_branch =
     world_of [] (Inr \<lparr>stdout_read = Inr (''HEAD'' @ [CHR 0x0A]), returncode = 128\<rparr>)"

text \<open>A local build where the shell finds no \<^verbatim>\<open>git\<close>: no output, exit status 127.\<close>

definition git_missing :: world where
  "git_missing = world_of [] (Inr \<lparr>stdout_read = Inr '''', returncode = 127\<rparr>)"

text \<open>A local build where \<^verbatim>\<open>Popen\<close> itself raises.\<close>

definition popen_fails :: world where
  "popen_fails = world_of [] (Inl OSError)"

text \<open>A local build where reading the output raises.\<close>

definition read_fails :: world where
  "read_fails = world_of [] (Inr \<lparr>stdout_read = Inl UnicodeDecodeError, returncode = 0\<rparr>)"

text \<open>Builds whose flag is not the string \<^verbatim>\<open>True\<close>, with a version variable set.\<close>

definition flag_lowercase :: world where
  "flag_lowercase =
     world_of [(''READTHEDOCS'', ''true''), (''READTHEDOCS_VERSION'', ''stable'')]
       (Inr \<lparr>stdout_read = Inr (''main'' @ [CHR 0x0A]), returncode = 0\<rparr>)"

definition flag_one :: world where
  "flag_one =
     world_of [(''READTHEDOCS'', ''1''), (''READTHEDOCS_VERSION'', ''stable'')]
       (Inr \<lparr>stdout_read = Inr (''main'' @ [CHR 0x0A]), returncode = 0\<rparr>)"

definition flag_unset :: world where
  "flag_unset =
     world_of [(''READTHEDOCS_VERSION'', ''stable'')]
       (Inr \<lparr>stdout_read = Inr (''main'' @ [CHR 0x0A]), returncode = 0\<rparr>)"

text \<open>Two builds that agree on the two variables and on the outcome of \<open>git_command\<close>,
  and differ in the other variables, in the date and in what other commands do.\<close>

definition build_a :: world where
  "build_a =
     \<lparr>environ = map_of [(''HOME'', ''/home/docs''), (''READTHEDOCS'', ''False'')],
      Popen = (\<lambda>cmd. if cmd = git_command
                 then Inr \<lparr>stdout_read = Inr (''dev'' @ [CHR 0x0A]), returncode = 0\<rparr>
                 else Inl OSError),
      today = \<lparr>year = 2025, month = 1, day = 31\<rparr>\<rparr>"

definition build_b :: world where
  "build_b =
     \<lparr>environ = map_of [(''READTHEDOCS'', ''False''), (''LANG'', ''C'')],
      Popen = (\<lambda>cmd. if cmd = git_command
                 then Inr \<lparr>stdout_read = Inr (''dev'' @ [CHR 0x0A]), returncode = 0\<rparr>
                 else Inr \<lparr>stdout_read = Inr ''other'', returncode = 1\<rparr>),
      today = \<lparr>year = 2026, month = 11, day = 4\<rparr>\<rparr>"

section \<open>Properties of \<^verbatim>\<open>get_version\<close>\<close>

lemmas strip_defs = strip_def lstrip_def rstrip_def isspace_def whitespace_def

lemma py_or_latest_nonempty: "py_or v ''latest'' \<noteq> []"
  by (simp add: py_or_def truthy_def)

lemma get_version_hosted:
  assumes "environ w ''READTHEDOCS'' = Some ''True''"
    and "environ w ''READTHEDOCS_VERSION'' = Some v"
    and "v \<noteq> []"
  shows "get_version w = (v, [])"
  using assms by (simp add: get_version_def truthy_def)

text \<open>
  When the hosted branch does not return, the \<^verbatim>\<open>try\<close> statement decides, and
  \<^verbatim>\<open>Popen\<close> has been called once.
\<close>

lemma get_version_fallthrough:
  assumes "environ w ''READTHEDOCS'' \<noteq> Some ''True''
         \<or> environ w ''READTHEDOCS_VERSION'' = None
         \<or> environ w ''READTHEDOCS_VERSION'' = Some []"
  shows "get_version w =
           (case git_output w of Inr v \<Rightarrow> py_or v ''latest'' | Inl e \<Rightarrow> ''latest'',
            [git_command])"
  using assms by (auto simp: get_version_def truthy_def split: sum.splits)

lemma git_output_explicit:
  "(case git_output w of Inr v \<Rightarrow> py_or v ''latest'' | Inl e \<Rightarrow> ''latest'') =
     (case Popen w git_command of
        Inl e \<Rightarrow> ''latest''
      | Inr p \<Rightarrow>
          (case stdout_read p of
             Inl e \<Rightarrow> ''latest''
           | Inr out \<Rightarrow> if strip out = [] then ''latest'' else strip out))"
  by (simp add: git_output_def py_or_def truthy_def split: sum.splits)

text \<open>
  What \<open>strip\<close> computes: the string is the result between two runs of whitespace,
  and a result that is not empty neither starts nor ends with whitespace.
\<close>

lemma rstrip_decomposition:
  "s = rstrip s @ rev (takeWhile isspace (rev s))"
proof -
  have "rstrip s @ rev (takeWhile isspace (rev s)) =
          rev (takeWhile isspace (rev s) @ dropWhile isspace (rev s))"
    by (simp only: rstrip_def rev_append)
  also have "\<dots> = s"
    by simp
  finally show ?thesis
    by (rule sym)
qed

lemma strip_decomposition:
  "\<exists>l r. s = l @ strip s @ r \<and> (\<forall>c\<in>set l. isspace c) \<and> (\<forall>c\<in>set r. isspace c)"
proof (intro exI conjI)
  have "s = rstrip s @ rev (takeWhile isspace (rev s))"
    by (rule rstrip_decomposition)
  also have "rstrip s = takeWhile isspace (rstrip s) @ strip s"
    by (simp add: strip_def lstrip_def)
  finally show "s = takeWhile isspace (rstrip s) @ strip s @ rev (takeWhile isspace (rev s))"
    by simp
  show "\<forall>c\<in>set (takeWhile isspace (rstrip s)). isspace c"
    by (auto dest: set_takeWhileD)
  show "\<forall>c\<in>set (rev (takeWhile isspace (rev s))). isspace c"
    by (auto dest: set_takeWhileD)
qed

lemma rstrip_last:
  assumes "rstrip s \<noteq> []"
  shows "\<not> isspace (last (rstrip s))"
proof -
  from assms have "dropWhile isspace (rev s) \<noteq> []"
    by (simp add: rstrip_def)
  then have "\<not> isspace (hd (dropWhile isspace (rev s)))"
    by (rule hd_dropWhile)
  then show ?thesis
    by (simp add: rstrip_def last_rev)
qed

lemma strip_ends:
  assumes "strip s \<noteq> []"
  shows "\<not> isspace (hd (strip s)) \<and> \<not> isspace (last (strip s))"
proof
  from assms show "\<not> isspace (hd (strip s))"
    unfolding strip_def lstrip_def by (rule hd_dropWhile)
  from assms have nonempty: "rstrip s \<noteq> []"
    by (auto simp: strip_def lstrip_def)
  have "rstrip s = takeWhile isspace (rstrip s) @ strip s"
    by (simp add: strip_def lstrip_def)
  then have "last (rstrip s) = last (takeWhile isspace (rstrip s) @ strip s)"
    by (rule arg_cong)
  with assms have "last (rstrip s) = last (strip s)"
    by simp
  with rstrip_last [OF nonempty] show "\<not> isspace (last (strip s))"
    by simp
qed

lemma strip_nonblank:
  assumes "\<exists>c\<in>set s. \<not> isspace c"
  shows "strip s \<noteq> []"
proof -
  from assms have nonempty: "rstrip s \<noteq> []"
    by (auto simp: rstrip_def)
  then have "last (rstrip s) \<in> set (rstrip s)"
    by (rule last_in_set)
  with rstrip_last [OF nonempty] show ?thesis
    by (auto simp: strip_def lstrip_def)
qed

text \<open>
  C1. In every environment where \<^verbatim>\<open>READTHEDOCS\<close> is \<^verbatim>\<open>"True"\<close> and
  \<^verbatim>\<open>READTHEDOCS_VERSION\<close> is present and not empty, \<^verbatim>\<open>get_version\<close>
  returns that variable's value unchanged (and starts no subprocess).
\<close>

theorem hosted_version_verbatim:
  assumes "environ w ''READTHEDOCS'' = Some ''True''"
    and "environ w ''READTHEDOCS_VERSION'' = Some v"
    and "v \<noteq> []"
  shows "get_version w = (v, [])"
  using assms by (rule get_version_hosted)

theorem hosted_version_verbatim_witness:
  "environ hosted_stable ''READTHEDOCS'' = Some ''True''
   \<and> environ hosted_stable ''READTHEDOCS_VERSION'' = Some ''stable''
   \<and> ''stable'' \<noteq> []
   \<and> get_version hosted_stable = (''stable'', [])"
  using hosted_version_verbatim [of hosted_stable "''stable''"]
  by (simp add: hosted_stable_def world_of_def)

text \<open>
  C2. When \<^verbatim>\<open>READTHEDOCS\<close> is absent and the subprocess succeeds (it starts,
  its output is read, it exits with status 0 and the output is not blank),
  \<^verbatim>\<open>get_version\<close> returns the output with the surrounding whitespace trimmed:
  the output is the result between two runs of whitespace, and the result is not empty and
  neither starts nor ends with whitespace. \<^verbatim>\<open>Popen\<close> is called once.
\<close>

theorem checkout_version_trimmed:
  assumes "environ w ''READTHEDOCS'' = None"
    and "Popen w git_command = Inr p"
    and "stdout_read p = Inr out"
    and "returncode p = 0"
    and "\<exists>c\<in>set out. \<not> isspace c"
  shows "(\<exists>l r. out = l @ fst (get_version w) @ r
            \<and> (\<forall>c\<in>set l. isspace c) \<and> (\<forall>c\<in>set r. isspace c))
       \<and> fst (get_version w) \<noteq> []
       \<and> \<not> isspace (hd (fst (get_version w)))
       \<and> \<not> isspace (last (fst (get_version w)))
       \<and> get_version w = (strip out, [git_command])"
proof -
  from assms(5) have nonblank: "strip out \<noteq> []"
    by (rule strip_nonblank)
  with assms(1-3) have result: "get_version w = (strip out, [git_command])"
    by (simp add: get_version_fallthrough git_output_explicit)
  from strip_decomposition [of out] strip_ends [OF nonblank] nonblank result
  show ?thesis
    by simp
qed

theorem checkout_version_trimmed_witness:
  "environ checkout_padded ''READTHEDOCS'' = None
   \<and> Popen checkout_padded git_command =
       Inr \<lparr>stdout_read = Inr ([CHR 0x20, CHR 0x09] @ ''main'' @ [CHR 0x0D, CHR 0x0A]),
            returncode = 0\<rparr>
   \<and> \<not> isspace (CHR ''m'')
   \<and> get_version checkout_padded = (''main'', [git_command])
   \<and> isspace (CHR 0x20) \<and> isspace (CHR 0x09) \<and> isspace (CHR 0x0D) \<and> isspace (CHR 0x0A)
   \<and> \<not> isspace (hd ''main'') \<and> \<not> isspace (last ''main'')"
  using checkout_version_trimmed
    [of checkout_padded
        "\<lparr>stdout_read = Inr ([CHR 0x20, CHR 0x09] @ ''main'' @ [CHR 0x0D, CHR 0x0A]),
          returncode = 0\<rparr>"
        "[CHR 0x20, CHR 0x09] @ ''main'' @ [CHR 0x0D, CHR 0x0A]"]
  by (simp add: checkout_padded_def world_of_def strip_defs)

text \<open>
  C3, as the specification states it: when \<^verbatim>\<open>READTHEDOCS\<close> is
  \<^verbatim>\<open>"True"\<close> and \<^verbatim>\<open>READTHEDOCS_VERSION\<close> is absent or empty, the
  version is the placeholder \<^verbatim>\<open>"latest"\<close> and the version-control step is not
  consulted. The build \<open>hosted_no_version\<close> refutes it: the subprocess is started and
  its branch name is the result.
\<close>

theorem hosted_without_version_counterexample:
  "environ hosted_no_version ''READTHEDOCS'' = Some ''True''
   \<and> environ hosted_no_version ''READTHEDOCS_VERSION'' = None
   \<and> get_version hosted_no_version = (''main'', [git_command])
   \<and> get_version hosted_no_version \<noteq> (''latest'', [])"
  by (simp add: hosted_no_version_def world_of_def get_version_def git_output_def
      py_or_def truthy_def strip_defs)

text \<open>
  C3, amended: when \<^verbatim>\<open>READTHEDOCS\<close> is \<^verbatim>\<open>"True"\<close> and
  \<^verbatim>\<open>READTHEDOCS_VERSION\<close> is absent or empty, \<^verbatim>\<open>get_version\<close> goes on
  to the version-control query, called once: the result is the stripped output when the
  query gives output that is not blank, and \<^verbatim>\<open>"latest"\<close> when it raises or its
  output is blank.
\<close>

theorem hosted_without_version_falls_back:
  assumes "environ w ''READTHEDOCS'' = Some ''True''"
    and "environ w ''READTHEDOCS_VERSION'' = None
       \<or> environ w ''READTHEDOCS_VERSION'' = Some []"
  shows "get_version w =
           (case Popen w git_command of
              Inl e \<Rightarrow> ''latest''
            | Inr p \<Rightarrow>
                (case stdout_read p of
                   Inl e \<Rightarrow> ''latest''
                 | Inr out \<Rightarrow> if strip out = [] then ''latest'' else strip out),
            [git_command])"
proof -
  from assms(2) have "environ w ''READTHEDOCS'' \<noteq> Some ''True''
         \<or> environ w ''READTHEDOCS_VERSION'' = None
         \<or> environ w ''READTHEDOCS_VERSION'' = Some []"
    by blast
  then show ?thesis
    by (simp only: get_version_fallthrough git_output_explicit)
qed

theorem hosted_without_version_falls_back_witness:
  "environ hosted_empty_version ''READTHEDOCS'' = Some ''True''
   \<and> environ hosted_empty_version ''READTHEDOCS_VERSION'' = Some []
   \<and> get_version hosted_empty_version = (''main'', [git_command])"
  using hosted_without_version_falls_back [of hosted_empty_version]
  by (simp add: hosted_empty_version_def world_of_def strip_defs)

text \<open>
  C4, as the specification states it: when the hosted source is unavailable and the
  subprocess fails in any way, a non-zero exit status included, the result is
  \<^verbatim>\<open>"latest"\<close>. The build \<open>unborn_branch\<close> refutes it: the exit status is 128,
  the output is not blank, and the output is the result. The exit status is never read.
\<close>

theorem nonzero_exit_counterexample:
  "environ unborn_branch ''READTHEDOCS'' = None
   \<and> Popen unborn_branch git_command =
       Inr \<lparr>stdout_read = Inr (''HEAD'' @ [CHR 0x0A]), returncode = 128\<rparr>
   \<and> returncode \<lparr>stdout_read = Inr (''HEAD'' @ [CHR 0x0A]), returncode = 128\<rparr> \<noteq> 0
   \<and> get_version unborn_branch = (''HEAD'', [git_command])
   \<and> fst (get_version unborn_branch) \<noteq> ''latest''"
  by (simp add: unborn_branch_def world_of_def get_version_def git_output_def
      py_or_def truthy_def strip_defs)

text \<open>
  C4, amended: when the hosted source is unavailable (the flag is not \<^verbatim>\<open>"True"\<close>,
  or the version variable is absent or empty) and the query raises an exception, in
  \<^verbatim>\<open>Popen\<close> or in reading the output, or its output is empty or whitespace only,
  whatever the exit status, \<^verbatim>\<open>get_version\<close> returns \<^verbatim>\<open>"latest"\<close>; the
  exception does not leave \<^verbatim>\<open>get_version\<close>.
\<close>

theorem failed_query_gives_latest:
  assumes "environ w ''READTHEDOCS'' \<noteq> Some ''True''
         \<or> environ w ''READTHEDOCS_VERSION'' = None
         \<or> environ w ''READTHEDOCS_VERSION'' = Some []"
    and "(\<exists>e. Popen w git_command = Inl e)
       \<or> (\<exists>p e. Popen w git_command = Inr p \<and> stdout_read p = Inl e)
       \<or> (\<exists>p out. Popen w git_command = Inr p \<and> stdout_read p = Inr out \<and> strip out = [])"
  shows "get_version w = (''latest'', [git_command])"
proof -
  from assms(2)
  have "(case Popen w git_command of
           Inl e \<Rightarrow> ''latest''
         | Inr p \<Rightarrow>
             (case stdout_read p of
                Inl e \<Rightarrow> ''latest''
              | Inr out \<Rightarrow> if strip out = [] then ''latest'' else strip out)) = ''latest''"
    by (auto split: sum.splits)
  with assms(1) show ?thesis
    by (simp only: get_version_fallthrough git_output_explicit)
qed

theorem failed_query_gives_latest_witness:
  "get_version git_missing = (''latest'', [git_command])
   \<and> get_version popen_fails = (''latest'', [git_command])
   \<and> get_version read_fails = (''latest'', [git_command])
   \<and> get_version
        (world_of [(''READTHEDOCS'', ''True'')]
           (Inr \<lparr>stdout_read = Inr [CHR 0x20, CHR 0x0A], returncode = 0\<rparr>)) =
       (''latest'', [git_command])"
proof -
  have "get_version git_missing = (''latest'', [git_command])"
    by (rule failed_query_gives_latest)
      (simp_all add: git_missing_def world_of_def strip_defs)
  moreover have "get_version popen_fails = (''latest'', [git_command])"
    by (rule failed_query_gives_latest) (simp_all add: popen_fails_def world_of_def)
  moreover have "get_version read_fails = (''latest'', [git_command])"
    by (rule failed_query_gives_latest) (simp_all add: read_fails_def world_of_def)
  moreover have "get_version
        (world_of [(''READTHEDOCS'', ''True'')]
           (Inr \<lparr>stdout_read = Inr [CHR 0x20, CHR 0x0A], returncode = 0\<rparr>)) =
       (''latest'', [git_command])"
    by (rule failed_query_gives_latest) (simp_all add: world_of_def strip_defs)
  ultimately show ?thesis
    by simp
qed

text \<open>
  C5. In every environment and for every outcome of the subprocess, the string
  \<^verbatim>\<open>get_version\<close> returns is not empty, and so is the module's
  \<^verbatim>\<open>version\<close>.
\<close>

theorem version_nonempty:
  "fst (get_version w) \<noteq> [] \<and> version (fst (module_init w)) \<noteq> []"
proof -
  have "fst (get_version w) \<noteq> []"
  proof (cases "environ w ''READTHEDOCS'' = Some ''True''
              \<and> (\<exists>v. environ w ''READTHEDOCS_VERSION'' = Some v \<and> v \<noteq> [])")
    case True
    then obtain v where "environ w ''READTHEDOCS_VERSION'' = Some v" and "v \<noteq> []"
      by blast
    with True show ?thesis
      by (simp add: get_version_hosted)
  next
    case False
    then have "environ w ''READTHEDOCS'' \<noteq> Some ''True''
         \<or> environ w ''READTHEDOCS_VERSION'' = None
         \<or> environ w ''READTHEDOCS_VERSION'' = Some []"
      by (cases "environ w ''READTHEDOCS_VERSION''") auto
    then show ?thesis
      by (simp add: get_version_fallthrough py_or_latest_nonempty split: sum.splits)
  qed
  moreover have "version (fst (module_init w)) = fst (get_version w)"
    by (simp add: module_init_def Let_def split_def)
  ultimately show ?thesis
    by simp
qed

text \<open>
  C7. The hosted branch is taken only when \<^verbatim>\<open>READTHEDOCS\<close> is exactly the string
  \<^verbatim>\<open>"True"\<close>: for any other value, and when the variable is not set,
  \<^verbatim>\<open>get_version\<close> goes on to the version-control query, whatever
  \<^verbatim>\<open>READTHEDOCS_VERSION\<close> holds.
\<close>

theorem hosted_branch_needs_exact_True:
  assumes "environ w ''READTHEDOCS'' \<noteq> Some ''True''"
  shows "get_version w =
           (case Popen w git_command of
              Inl e \<Rightarrow> ''latest''
            | Inr p \<Rightarrow>
                (case stdout_read p of
                   Inl e \<Rightarrow> ''latest''
                 | Inr out \<Rightarrow> if strip out = [] then ''latest'' else strip out),
            [git_command])"
proof -
  from assms have "environ w ''READTHEDOCS'' \<noteq> Some ''True''
         \<or> environ w ''READTHEDOCS_VERSION'' = None
         \<or> environ w ''READTHEDOCS_VERSION'' = Some []"
    by blast
  then show ?thesis
    by (simp only: get_version_fallthrough git_output_explicit)
qed

theorem hosted_branch_needs_exact_True_witness:
  "environ flag_lowercase ''READTHEDOCS'' = Some ''true''
   \<and> environ flag_lowercase ''READTHEDOCS_VERSION'' = Some ''stable''
   \<and> get_version flag_lowercase = (''main'', [git_command])
   \<and> environ flag_one ''READTHEDOCS'' = Some ''1''
   \<and> environ flag_one ''READTHEDOCS_VERSION'' = Some ''stable''
   \<and> get_version flag_one = (''main'', [git_command])
   \<and> environ flag_unset ''READTHEDOCS'' = None
   \<and> environ flag_unset ''READTHEDOCS_VERSION'' = Some ''stable''
   \<and> get_version flag_unset = (''main'', [git_command])"
  using hosted_branch_needs_exact_True [of flag_lowercase]
    hosted_branch_needs_exact_True [of flag_one]
    hosted_branch_needs_exact_True [of flag_unset]
  by (simp add: flag_lowercase_def flag_one_def flag_unset_def world_of_def strip_defs)

text \<open>
  C9. \<^verbatim>\<open>get_version\<close> is a function of the two environment variables and of the
  outcome of the version-control subprocess: two runs that agree on these return the same
  string (and make the same calls), whatever else differs.
\<close>

theorem get_version_deterministic:
  assumes "environ w1 ''READTHEDOCS'' = environ w2 ''READTHEDOCS''"
    and "environ w1 ''READTHEDOCS_VERSION'' = environ w2 ''READTHEDOCS_VERSION''"
    and "Popen w1 git_command = Popen w2 git_command"
  shows "get_version w1 = get_version w2"
proof -
  from assms(3) have query: "git_output w1 = git_output w2"
    by (simp add: git_output_def)
  show ?thesis
    unfolding get_version_def assms(1) assms(2) query by (rule refl)
qed

theorem get_version_deterministic_witness:
  "environ build_a ''READTHEDOCS'' = environ build_b ''READTHEDOCS''
   \<and> environ build_a ''READTHEDOCS_VERSION'' = environ build_b ''READTHEDOCS_VERSION''
   \<and> Popen build_a git_command = Popen build_b git_command
   \<and> environ build_a ''HOME'' \<noteq> environ build_b ''HOME''
   \<and> today build_a \<noteq> today build_b
   \<and> Popen build_a ''ls'' \<noteq> Popen build_b ''ls''
   \<and> get_version build_a = get_version build_b"
  using get_version_deterministic [of build_a build_b]
  by (simp add: build_a_def build_b_def git_command_def)

section \<open>Properties of the module-level values\<close>

lemma digit_char_numerals:
  "digit_char 0 = CHR ''0''" "digit_char 1 = CHR ''1''" "digit_char 2 = CHR ''2''"
  "digit_char 3 = CHR ''3''" "digit_char 4 = CHR ''4''" "digit_char 5 = CHR ''5''"
  "digit_char 6 = CHR ''6''" "digit_char 7 = CHR ''7''" "digit_char 8 = CHR ''8''"
  "digit_char 9 = CHR ''9''"
  by code_simp+

lemma decimal_four_digits:
  assumes "1000 \<le> y" and "y \<le> 9999"
  shows "decimal y =
           [digit_char (y div 1000), digit_char (y div 100 mod 10),
            digit_char (y div 10 mod 10), digit_char (y mod 10)]"
proof -
  from assms have big: "\<not> y < 10" "\<not> y div 10 < 10" "\<not> y div 100 < 10"
    and small: "y div 1000 < 10"
    by simp_all
  have a: "decimal y = decimal (y div 10) @ [digit_char (y mod 10)]"
    by (subst decimal.simps) (simp add: big)
  have b: "decimal (y div 10) = decimal (y div 100) @ [digit_char (y div 10 mod 10)]"
    by (subst decimal.simps) (simp add: big div_mult2_eq [symmetric])
  have c: "decimal (y div 100) = decimal (y div 1000) @ [digit_char (y div 100 mod 10)]"
    by (subst decimal.simps) (simp add: big div_mult2_eq [symmetric])
  have d: "decimal (y div 1000) = [digit_char (y div 1000)]"
    by (subst decimal.simps) (simp add: small)
  show ?thesis
    by (simp add: a b c d)
qed

lemma module_init_copyright:
  "copyright (fst (module_init w)) = ''2024-'' @ decimal (year (today w))"
  by (simp add: module_init_def Let_def split_def strftime_Y_def)

text \<open>
  C6. \<^verbatim>\<open>copyright\<close> is computed from the date of the build: in a year of four
  digits it is \<^verbatim>\<open>"2024-"\<close> followed by the four decimal digits of that year.
\<close>

theorem copyright_current_year:
  assumes "1000 \<le> year (today w)" and "year (today w) \<le> 9999"
  shows "copyright (fst (module_init w)) =
           ''2024-'' @
           [digit_char (year (today w) div 1000), digit_char (year (today w) div 100 mod 10),
            digit_char (year (today w) div 10 mod 10), digit_char (year (today w) mod 10)]"
  using assms by (simp only: module_init_copyright decimal_four_digits)

theorem copyright_current_year_witness:
  "1000 \<le> year (today checkout_main) \<and> year (today checkout_main) \<le> 9999
   \<and> year (today checkout_main) = 2026
   \<and> copyright (fst (module_init checkout_main)) = ''2024-2026''"
  using copyright_current_year [of checkout_main]
  by (simp add: checkout_main_def world_of_def digit_char_numerals)

text \<open>
  C8. After the module is initialised, \<^verbatim>\<open>release\<close> and the entry
  \<^verbatim>\<open>github_version\<close> of \<^verbatim>\<open>html_context\<close> both equal
  \<^verbatim>\<open>version\<close>, which is what the one call of \<^verbatim>\<open>get_version\<close>
  returned; the module starts no subprocess but that call's.
\<close>

theorem release_and_github_version_are_version:
  "release (fst (module_init w)) = version (fst (module_init w))
   \<and> map_of (html_context (fst (module_init w))) ''github_version'' =
       Some (Str (version (fst (module_init w))))
   \<and> version (fst (module_init w)) = fst (get_version w)
   \<and> snd (module_init w) = snd (get_version w)"
  by (simp add: module_init_def Let_def split_def)

end
